theory Spec2Isabelle
  imports Main "HOL-Library.AList"
begin

section \<open>The editor store of monacoEditorBindingHandler.ts\<close>

text \<open>
  A shallow embedding of \<^verbatim>\<open>MonacoEditorStore\<close> and \<^verbatim>\<open>MonacoBindingHandlerHelper\<close>.
  The store, the DOM elements, the option objects and the editor widgets are mutable
  JavaScript objects; the model passes a record of all of them (\<open>world\<close>) through every
  operation. References are natural numbers. A \<^verbatim>\<open>throw\<close> of the source is the
  \<open>Inl\<close> branch of a sum; every \<^verbatim>\<open>throw\<close> of this file happens before the
  operation has mutated anything, so \<open>Inl\<close> carries no state.

  Outside the model: an assignment to the accessor property \<^verbatim>\<open>__proto__\<close> (an element
  whose DOM id is that name is stored like any other), numbers that are not integers,
  counters beyond the range in which a JavaScript number is an exact integer, and what
  the binding framework does when an observable is written.
\<close>

subsection \<open>JavaScript values and option objects\<close>

type_synonym ref = nat

datatype jsval =
    JUndefined
  | JNull
  | JBool bool
  | JNum int
  | JNaN
  | JStr string
  | JObj "(string \<times> jsval) list"  \<comment> \<open>a nested object literal, by value\<close>
  | JModel string jsval             \<comment> \<open>a text model: its starting text and language\<close>

text \<open>\<^verbatim>\<open>!v\<close> of JavaScript.\<close>

fun falsy :: "jsval \<Rightarrow> bool" where
  "falsy JUndefined = True"
| "falsy JNull = True"
| "falsy (JBool b) = (\<not> b)"
| "falsy (JNum n) = (n = 0)"
| "falsy JNaN = True"
| "falsy (JStr s) = (s = [])"
| "falsy (JObj fs) = False"
| "falsy (JModel t l) = False"

type_synonym js_object = "string \<rightharpoonup> jsval"

text \<open>\<^verbatim>\<open>o.k\<close>: a property the object does not have reads as \<^verbatim>\<open>undefined\<close>.\<close>

definition getProp :: "js_object \<Rightarrow> string \<Rightarrow> jsval" where
  "getProp obj k = (case obj k of None \<Rightarrow> JUndefined | Some v \<Rightarrow> v)"

text \<open>
  The \<^verbatim>\<open>options: any\<close> argument: an object reference, or a falsy value
  (\<^verbatim>\<open>null\<close>, \<^verbatim>\<open>undefined\<close>), for which \<^verbatim>\<open>|| {}\<close> takes a fresh object.
\<close>

datatype options_arg = OptNull | OptObj ref

subsection \<open>Widgets, observables, errors\<close>

datatype error = InvalidArgument | MissingOptions | TypeError

record position =
  lineNumber :: int
  column :: int

text \<open>
  The model property a binding is for: a plain value, a writeable observable or a
  read-only one (\<^verbatim>\<open>ko.isWriteableObservable\<close> tells the last two apart).
\<close>

datatype ko_prop = Plain string | Observable ref | ReadOnlyObservable ref

text \<open>
  An editor widget is an object of the widget library. The model keeps what this file
  reads and writes of it: the text of its model, its position, the number of
  \<^verbatim>\<open>setValue()\<close> and of \<^verbatim>\<open>layout()\<close> calls, whether \<^verbatim>\<open>dispose()\<close> was called, and the
  listeners added (each closure holds its element and its accessor).
\<close>

record editor =
  ed_container :: ref
  ed_options :: ref
  ed_value :: string
  ed_language :: jsval
  ed_position :: position
  ed_setValueCalls :: nat
  ed_layouts :: nat
  ed_disposed :: bool
  ed_listeners :: "(ref \<times> ko_prop) list"

text \<open>The closure handed to \<^verbatim>\<open>require\<close> by \<^verbatim>\<open>create\<close>.\<close>

record pending =
  p_element :: ref
  p_options :: options_arg
  p_accessor :: ko_prop
  p_start :: string

record world =
  nextStoreEntryId :: nat
  monacoEditorInstances :: "(string \<times> ref) list"
    \<comment> \<open>the own properties of the store object, in insertion order\<close>
  element_id :: "ref \<Rightarrow> string"        \<comment> \<open>\<^verbatim>\<open>element.id\<close>; empty when the element has none\<close>
  objects :: "ref \<Rightarrow> js_object"
  nextObject :: ref
  editors :: "ref \<Rightarrow> editor"
  nextEditor :: ref
  observables :: "ref \<Rightarrow> string"
  disposeCallbacks :: "ref list"       \<comment> \<open>elements with a dispose callback of \<^verbatim>\<open>create\<close>\<close>
  pendingLoads :: "pending list"       \<comment> \<open>callbacks \<^verbatim>\<open>require\<close> has not run yet\<close>
  storedText :: "string \<Rightarrow> string"
    \<comment> \<open>the widget library: the text a widget holds once it is given a text\<close>
  validPosition :: "string \<Rightarrow> position \<Rightarrow> position"
    \<comment> \<open>the widget library: the position a widget with that text takes once it is given one\<close>

subsection \<open>The widget library's operations\<close>

text \<open>
  The operations of an editor handle belong to the widget library and are not in the
  source. The spec names them (\<^verbatim>\<open>getValue\<close>, \<^verbatim>\<open>setValue\<close>, \<^verbatim>\<open>setPosition\<close>,
  \<^verbatim>\<open>layout\<close>, \<^verbatim>\<open>dispose\<close>, \<^verbatim>\<open>onDidChangeModelContent\<close>) and says no more of them. A
  widget need not keep a text or a position as it is given: it may rewrite line ends, and
  move a position into its text. What it keeps is therefore a parameter of the world,
  \<open>storedText\<close> and \<open>validPosition\<close>.
\<close>

text \<open>Modelled from the spec: \<^verbatim>\<open>getValue\<close> of the widget library, the text of the widget.\<close>

definition getValue :: "world \<Rightarrow> ref \<Rightarrow> string" where
  "getValue s e = ed_value (editors s e)"

text \<open>
  Modelled from the spec: \<^verbatim>\<open>setPosition\<close> of the widget library. The widget takes the
  position that \<open>validPosition\<close> makes of the one it is given.
\<close>

definition setPosition :: "world \<Rightarrow> ref \<Rightarrow> position \<Rightarrow> world" where
  "setPosition s e p =
     s\<lparr>editors := (editors s)(e := (editors s e)
          \<lparr>ed_position := validPosition s (ed_value (editors s e)) p\<rparr>)\<rparr>"

text \<open>Modelled from the spec: \<^verbatim>\<open>layout\<close> of the widget library; the calls are counted.\<close>

definition layout :: "world \<Rightarrow> ref \<Rightarrow> world" where
  "layout s e =
     s\<lparr>editors := (editors s)(e := (editors s e)\<lparr>ed_layouts := Suc (ed_layouts (editors s e))\<rparr>)\<rparr>"

text \<open>Modelled from the spec: \<^verbatim>\<open>dispose\<close> of the widget library, which releases the widget.\<close>

definition dispose :: "world \<Rightarrow> ref \<Rightarrow> world" where
  "dispose s e = s\<lparr>editors := (editors s)(e := (editors s e)\<lparr>ed_disposed := True\<rparr>)\<rparr>"

text \<open>\<^verbatim>\<open>ko.utils.unwrapObservable\<close>: the value of an observable, or the plain value.\<close>

definition unwrapObservable :: "world \<Rightarrow> ko_prop \<Rightarrow> string" where
  "unwrapObservable s p =
     (case p of Plain v \<Rightarrow> v | Observable r \<Rightarrow> observables s r
      | ReadOnlyObservable r \<Rightarrow> observables s r)"

subsection \<open>Property access on the store object\<close>

text \<open>
  \<^verbatim>\<open>_monacoEditorInstances\<close> is created as \<^verbatim>\<open>{}\<close>, so its prototype is
  \<^verbatim>\<open>Object.prototype\<close>: a key it does not own is looked up there. These are the
  properties of \<^verbatim>\<open>Object.prototype\<close>: those of ECMAScript 5.1 (15.2.4) and those
  browsers add (ES2015, B.2.2). None is enumerable.
\<close>

definition objectPrototypeKeys :: "string list" where
  "objectPrototypeKeys =
     [''constructor'', ''toString'', ''toLocaleString'', ''valueOf'', ''hasOwnProperty'',
      ''isPrototypeOf'', ''propertyIsEnumerable'', ''__proto__'', ''__defineGetter__'',
      ''__defineSetter__'', ''__lookupGetter__'', ''__lookupSetter__'']"

datatype lookup =
    Handle ref          \<comment> \<open>an own property: the editor stored under the key\<close>
  | Inherited string    \<comment> \<open>the member of \<^verbatim>\<open>Object.prototype\<close> of that name\<close>
  | Undefined

text \<open>\<^verbatim>\<open>this._monacoEditorInstances[ k ]\<close>\<close>

definition lookupProp :: "(string \<times> ref) list \<Rightarrow> string \<Rightarrow> lookup" where
  "lookupProp insts k =
     (case map_of insts k of
        Some e \<Rightarrow> Handle e
      | None \<Rightarrow> if k \<in> set objectPrototypeKeys then Inherited k else Undefined)"

text \<open>
  \<^verbatim>\<open>this._monacoEditorInstances.hasOwnProperty( k )\<close>: the method is itself looked up
  on the store. When an editor is stored under the key \<^verbatim>\<open>hasOwnProperty\<close>, the lookup
  finds the editor, which is not a function, and the call throws a TypeError.
\<close>

definition hasOwnProperty :: "(string \<times> ref) list \<Rightarrow> string \<Rightarrow> error + bool" where
  "hasOwnProperty insts k =
     (case lookupProp insts ''hasOwnProperty'' of
        Handle e \<Rightarrow> Inl TypeError
      | _ \<Rightarrow> Inr (map_of insts k \<noteq> None))"

text \<open>
  The keys a \<^verbatim>\<open>for ( var id in this._monacoEditorInstances )\<close> loop visits: the own
  properties (all enumerable, as assignments created them).
\<close>

definition forInKeys :: "(string \<times> ref) list \<Rightarrow> string list" where
  "forInKeys insts = map fst insts"

text \<open>
  The \<^verbatim>\<open>id: string\<close> argument of \<^verbatim>\<open>get\<close> and \<^verbatim>\<open>updateEditor\<close>; as a property key,
  \<^verbatim>\<open>null\<close> and \<^verbatim>\<open>undefined\<close> are converted to their names.
\<close>

datatype id_arg = IdNull | IdUndefined | IdStr string

fun propertyKey :: "id_arg \<Rightarrow> string" where
  "propertyKey IdNull = ''null''"
| "propertyKey IdUndefined = ''undefined''"
| "propertyKey (IdStr k) = k"

subsection \<open>parseOptions\<close>

text \<open>One \<^verbatim>\<open>if ( !options.k ) options.k = d;\<close> of the source.\<close>

definition fillDefault :: "string \<Rightarrow> jsval \<Rightarrow> js_object \<Rightarrow> js_object" where
  "fillDefault k d obj = (if falsy (getProp obj k) then obj(k \<mapsto> d) else obj)"

definition minimapDefault :: jsval where
  "minimapDefault = JObj [(''enabled'', JBool True), (''showSlider'', JStr ''mouseover'')]"

text \<open>The fifteen statements, in the source's order: the property and its default.\<close>

definition optionDefaults :: "(string \<times> jsval) list" where
  "optionDefaults =
     [(''language'', JStr ''javascript''),
      (''theme'', JStr ''vs-dark''),
      (''lineNumbers'', JStr ''on''),
      (''roundedSelection'', JBool True),
      (''scrollBeyondLastLine'', JBool True),
      (''readOnly'', JBool False),
      (''fontSize'', JNum 20),
      (''autoIndent'', JBool True),
      (''emptySelectionClipboard'', JBool True),
      (''folding'', JBool True),
      (''glyphMargin'', JBool True),
      (''mouseWheelZoom'', JBool True),
      (''parameterHints'', JBool True),
      (''renderIndentGuides'', JBool True),
      (''minimap'', minimapDefault)]"

definition fillDefaults :: "js_object \<Rightarrow> js_object" where
  "fillDefaults obj = fold (\<lambda>(k, d). fillDefault k d) optionDefaults obj"

text \<open>\<^verbatim>\<open>{}\<close>: a fresh empty object.\<close>

definition newObject :: "world \<Rightarrow> world \<times> ref" where
  "newObject s =
     (s\<lparr>objects := (objects s)(nextObject s := Map.empty), nextObject := Suc (nextObject s)\<rparr>,
      nextObject s)"

text \<open>\<^verbatim>\<open>optionsObjectLiteral || {}\<close>\<close>

definition orEmptyObject :: "world \<Rightarrow> options_arg \<Rightarrow> world \<times> ref" where
  "orEmptyObject s arg = (case arg of OptObj a \<Rightarrow> (s, a) | OptNull \<Rightarrow> newObject s)"

text \<open>
  \<^verbatim>\<open>parseOptions\<close> assigns to the properties of \<open>options\<close>, the object the caller passed
  when there is one, and returns the reference.
\<close>

definition parseOptions :: "world \<Rightarrow> options_arg \<Rightarrow> world \<times> ref" where
  "parseOptions s optionsObjectLiteral =
     (let (s1, options) = orEmptyObject s optionsObjectLiteral
      in (s1\<lparr>objects := (objects s1)(options := fillDefaults (objects s1 options))\<rparr>, options))"

subsection \<open>The store\<close>

definition editorDomElementIdPrefix :: string where
  "editorDomElementIdPrefix = ''knockout-monaco-''"

text \<open>The decimal digits of a number, as a template string writes them.\<close>

definition digit :: "nat \<Rightarrow> char" where
  "digit d = char_of (48 + d)"

function decimal :: "nat \<Rightarrow> string" where
  "decimal n = (if n < 10 then [digit n] else decimal (n div 10) @ [digit (n mod 10)])"
  by pat_completeness auto
termination
  by (relation "measure id") auto

declare decimal.simps [simp del]

text \<open>\<^verbatim>\<open>new MonacoEditorStore()\<close>\<close>

definition constructor :: "world \<Rightarrow> world" where
  "constructor s = s\<lparr>monacoEditorInstances := [], nextStoreEntryId := 0\<rparr>"

definition getNextId :: "world \<Rightarrow> world \<times> string" where
  "getNextId s =
     (let s1 = s\<lparr>nextStoreEntryId := nextStoreEntryId s + 1\<rparr>
      in (s1, editorDomElementIdPrefix @ decimal (nextStoreEntryId s1)))"

text \<open>
  \<^verbatim>\<open>this._monacoEditorInstances[ id ].dispose(); delete this._monacoEditorInstances[ id ];\<close>
  When the store has no editor under \<open>id\<close>, the first statement calls \<^verbatim>\<open>dispose\<close> on
  \<^verbatim>\<open>undefined\<close>, or on a function of \<^verbatim>\<open>Object.prototype\<close>, which has no such method.
\<close>

definition disposeEditor :: "world \<Rightarrow> string \<Rightarrow> error + world" where
  "disposeEditor s k =
     (case lookupProp (monacoEditorInstances s) k of
        Handle e \<Rightarrow>
          Inr ((dispose s e)\<lparr>monacoEditorInstances := AList.delete k (monacoEditorInstances s)\<rparr>)
      | _ \<Rightarrow> Inl TypeError)"

fun resizeAll_loop :: "world \<Rightarrow> string list \<Rightarrow> error + world" where
  "resizeAll_loop s [] = Inr s"
| "resizeAll_loop s (k # ks) =
     (case hasOwnProperty (monacoEditorInstances s) k of
        Inl err \<Rightarrow> Inl err
      | Inr own \<Rightarrow>
          if \<not> own then resizeAll_loop s ks
          else (case lookupProp (monacoEditorInstances s) k of
                  Handle e \<Rightarrow> resizeAll_loop (layout s e) ks
                | _ \<Rightarrow> Inl TypeError))"

definition resizeAll :: "world \<Rightarrow> error + world" where
  "resizeAll s = resizeAll_loop s (forInKeys (monacoEditorInstances s))"

definition get :: "world \<Rightarrow> id_arg \<Rightarrow> error + lookup" where
  "get s ident =
     (if ident = IdNull \<or> ident = IdStr ''''
      then Inl InvalidArgument
      else Inr (lookupProp (monacoEditorInstances s) (propertyKey ident)))"

text \<open>
  The synchronous part of \<^verbatim>\<open>create\<close>: the element gets an id when it has none, the
  starting value is read, and the rest is handed to \<^verbatim>\<open>require\<close>.
\<close>

definition create :: "world \<Rightarrow> ref \<Rightarrow> options_arg \<Rightarrow> ko_prop \<Rightarrow> world" where
  "create s element options koModelPropAccessor =
     (let s1 = (if element_id s element = []
                then (let (s', i) = getNextId s
                      in s'\<lparr>element_id := (element_id s')(element := i)\<rparr>)
                else s);
          startingEditorValue = unwrapObservable s1 koModelPropAccessor
      in s1\<lparr>pendingLoads := pendingLoads s1 @
              [\<lparr>p_element = element, p_options = options,
                p_accessor = koModelPropAccessor, p_start = startingEditorValue\<rparr>]\<rparr>)"

text \<open>
  The callback of \<^verbatim>\<open>require\<close>, run once the widget library is loaded. The element's id
  is read again when the editor is stored.
\<close>

definition requireCallback :: "world \<Rightarrow> pending \<Rightarrow> world" where
  "requireCallback s p =
     (let (s1, parsedOptions) = parseOptions s (p_options p);
          language = getProp (objects s1 parsedOptions) ''language'';
          s2 = s1\<lparr>objects := (objects s1)(parsedOptions :=
                 (objects s1 parsedOptions)(''model'' \<mapsto> JModel (p_start p) language))\<rparr>;
          e = nextEditor s2;
          s3 = s2\<lparr>editors := (editors s2)(e :=
                 \<lparr>ed_container = p_element p, ed_options = parsedOptions,
                  ed_value = storedText s2 (p_start p), ed_language = language,
                  ed_position = \<lparr>lineNumber = 1, column = 1\<rparr>,
                  ed_setValueCalls = 0, ed_layouts = 0, ed_disposed = False,
                  ed_listeners = [(p_element p, p_accessor p)]\<rparr>),
                nextEditor := Suc e\<rparr>;
          s4 = s3\<lparr>disposeCallbacks := disposeCallbacks s3 @ [p_element p]\<rparr>
      in s4\<lparr>monacoEditorInstances :=
              AList.update (element_id s4 (p_element p)) e (monacoEditorInstances s4)\<rparr>)"

text \<open>The widget library is loaded: the oldest waiting callback runs.\<close>

definition loadDone :: "world \<Rightarrow> world" where
  "loadDone s =
     (case pendingLoads s of
        [] \<Rightarrow> s
      | p # ps \<Rightarrow> requireCallback (s\<lparr>pendingLoads := ps\<rparr>) p)"

text \<open>
  The dispose callback \<^verbatim>\<open>create\<close> adds to the element; it reads \<^verbatim>\<open>element.id\<close> when the
  element is removed. Its body is that of \<^verbatim>\<open>disposeEditor\<close>.
\<close>

definition disposeCallback :: "world \<Rightarrow> ref \<Rightarrow> error + world" where
  "disposeCallback s element = disposeEditor s (element_id s element)"

text \<open>The listener \<^verbatim>\<open>create\<close> adds with \<^verbatim>\<open>onDidChangeModelContent\<close>.\<close>

definition contentListener :: "world \<Rightarrow> ref \<Rightarrow> ko_prop \<Rightarrow> error + world" where
  "contentListener s element koModelPropAccessor =
     (case koModelPropAccessor of
        Observable r \<Rightarrow>
          (case get s (IdStr (element_id s element)) of
             Inl err \<Rightarrow> Inl err
           | Inr (Handle e) \<Rightarrow> Inr (s\<lparr>observables := (observables s)(r := getValue s e)\<rparr>)
           | Inr _ \<Rightarrow> Inl TypeError)
      | _ \<Rightarrow> Inr s)"

text \<open>
  Modelled from the spec: \<^verbatim>\<open>setValue\<close> of the widget library. The widget keeps the
  text that \<open>storedText\<close> makes of the one it is given, and then runs the listeners
  added with \<^verbatim>\<open>onDidChangeModelContent\<close>, before \<^verbatim>\<open>setValue\<close> returns. An exception
  of a listener is caught by the widget and does not reach the caller: that listener
  has changed nothing. The calls are counted.
\<close>

definition runListener :: "world \<Rightarrow> ref \<times> ko_prop \<Rightarrow> world" where
  "runListener s l =
     (case contentListener s (fst l) (snd l) of Inl err \<Rightarrow> s | Inr s' \<Rightarrow> s')"

definition fireDidChangeModelContent :: "world \<Rightarrow> ref \<Rightarrow> world" where
  "fireDidChangeModelContent s e = fold (\<lambda>l w. runListener w l) (ed_listeners (editors s e)) s"

definition setValue :: "world \<Rightarrow> ref \<Rightarrow> string \<Rightarrow> world" where
  "setValue s e v =
     fireDidChangeModelContent
       (s\<lparr>editors := (editors s)(e := (editors s e)
            \<lparr>ed_value := storedText s v,
             ed_setValueCalls := Suc (ed_setValueCalls (editors s e))\<rparr>)\<rparr>) e"

fun hasEditors_loop :: "(string \<times> ref) list \<Rightarrow> string list \<Rightarrow> bool \<Rightarrow> error + bool" where
  "hasEditors_loop insts [] hasInstances = Inr hasInstances"
| "hasEditors_loop insts (k # ks) hasInstances =
     (if hasInstances then hasEditors_loop insts ks hasInstances
      else (case hasOwnProperty insts k of
              Inl err \<Rightarrow> Inl err
            | Inr own \<Rightarrow>
                if \<not> own then hasEditors_loop insts ks hasInstances
                else hasEditors_loop insts ks True))"

definition hasEditors :: "world \<Rightarrow> error + bool" where
  "hasEditors s =
     hasEditors_loop (monacoEditorInstances s) (forInKeys (monacoEditorInstances s)) False"

definition updateEditor :: "world \<Rightarrow> id_arg \<Rightarrow> string \<Rightarrow> error + world" where
  "updateEditor s ident koModelValue =
     (if ident \<noteq> IdNull \<and> ident \<noteq> IdStr ''''
      then (case hasOwnProperty (monacoEditorInstances s) (propertyKey ident) of
              Inl err \<Rightarrow> Inl err
            | Inr own \<Rightarrow>
                if own
                then (case lookupProp (monacoEditorInstances s) (propertyKey ident) of
                        Handle e \<Rightarrow>
                          if getValue s e \<noteq> koModelValue
                          then Inr (setPosition (setValue s e koModelValue) e
                                      \<lparr>lineNumber = 0, column = 0\<rparr>)
                          else Inr s
                      | _ \<Rightarrow> Inl TypeError)
                else Inr s)
      else Inr s)"

subsection \<open>The binding handler\<close>

text \<open>
  \<^verbatim>\<open>allBindingsAccessor\<close>: the bindings declared on the element, by name. The value of
  a binding is an options object or a falsy value.
\<close>

type_synonym all_bindings = "string \<rightharpoonup> options_arg"

definition init ::
  "world \<Rightarrow> ref \<Rightarrow> ko_prop \<Rightarrow> all_bindings \<Rightarrow> error + world" where
  "init s element valueAccessor allBindingsAccessor =
     (case allBindingsAccessor ''meOptions'' of
        Some v \<Rightarrow>
          (let (s1, options) = orEmptyObject s v
           in Inr (create s1 element (OptObj options) valueAccessor))
      | None \<Rightarrow> Inl MissingOptions)"

definition update :: "world \<Rightarrow> ref \<Rightarrow> ko_prop \<Rightarrow> error + world" where
  "update s element valueAccessor =
     (let codeModelValue = unwrapObservable s valueAccessor;
          ident = element_id s element
      in updateEditor s (IdStr ident) codeModelValue)"

subsection \<open>Sequences of calls, and a page to run them on\<close>

text \<open>A sequence of \<^verbatim>\<open>create\<close> calls: the element, the options and the accessor of each.\<close>

fun createAll :: "world \<Rightarrow> (ref \<times> options_arg \<times> ko_prop) list \<Rightarrow> world" where
  "createAll s [] = s"
| "createAll s ((element, options, acc) # calls) = createAll (create s element options acc) calls"

text \<open>Reading a decimal numeral back, to show that \<open>decimal\<close> loses nothing.\<close>

definition undecimal :: "string \<Rightarrow> nat" where
  "undecimal cs = foldl (\<lambda>acc c. 10 * acc + (of_char c - 48)) 0 cs"

text \<open>
  A widget library for the examples: its widgets write every line end CR LF as LF, and
  keep a position at line 1, column 1 or beyond.
\<close>

fun crlfToLf :: "string \<Rightarrow> string" where
  "crlfToLf (c # d # cs) =
     (if c = CHR 0x0D \<and> d = CHR 0x0A then d # crlfToLf cs else c # crlfToLf (d # cs))"
| "crlfToLf cs = cs"

definition fromFirst :: "string \<Rightarrow> position \<Rightarrow> position" where
  "fromFirst text p = \<lparr>lineNumber = max 1 (lineNumber p), column = max 1 (column p)\<rparr>"

text \<open>
  A page just loaded, for running the operations on: its elements have the ids \<open>ids\<close>,
  the store has been constructed, the widget library is the one above, nothing else
  exists yet.
\<close>

definition noEditor :: editor where
  "noEditor =
     \<lparr>ed_container = 0, ed_options = 0, ed_value = [], ed_language = JUndefined,
      ed_position = \<lparr>lineNumber = 1, column = 1\<rparr>, ed_setValueCalls = 0, ed_layouts = 0,
      ed_disposed = False, ed_listeners = []\<rparr>"

definition page :: "(ref \<Rightarrow> string) \<Rightarrow> world" where
  "page ids =
     constructor
       \<lparr>nextStoreEntryId = 0, monacoEditorInstances = [], element_id = ids,
        objects = (\<lambda>r. Map.empty), nextObject = 0, editors = (\<lambda>r. noEditor), nextEditor = 0,
        observables = (\<lambda>r. []), disposeCallbacks = [], pendingLoads = [],
        storedText = crlfToLf, validPosition = fromFirst\<rparr>"

text \<open>
  The page after one editor has been created on element 0, whose DOM id is \<open>k\<close> (an
  empty \<open>k\<close>: the element has no id and gets a generated one), with an empty options
  binding and the starting text \<^verbatim>\<open>// start\<close>.
\<close>

definition editorOn :: "string \<Rightarrow> world" where
  "editorOn k = loadDone (create (page (\<lambda>r. k)) 0 OptNull (Plain ''// start''))"

section \<open>Options normalization\<close>

lemma getProp_fillDefault:
  "getProp (fillDefault k' d obj) k =
     (if k = k' \<and> falsy (getProp obj k) then d else getProp obj k)"
  by (auto simp: fillDefault_def getProp_def)

lemma fold_fillDefault:
  "distinct (map fst kds) \<Longrightarrow>
   getProp (fold (\<lambda>(k, d). fillDefault k d) kds obj) k =
     (case map_of kds k of
        None \<Rightarrow> getProp obj k
      | Some d \<Rightarrow> if falsy (getProp obj k) then d else getProp obj k)"
proof (induction kds arbitrary: obj)
  case Nil
  then show ?case by simp
next
  case (Cons p kds)
  obtain k' d' where p: "p = (k', d')" by (cases p)
  from Cons.prems have dist: "distinct (map fst kds)" by simp
  have step: "getProp (fold (\<lambda>(k, d). fillDefault k d) (p # kds) obj) k =
      (case map_of kds k of
         None \<Rightarrow> getProp (fillDefault k' d' obj) k
       | Some d \<Rightarrow> if falsy (getProp (fillDefault k' d' obj) k) then d
                  else getProp (fillDefault k' d' obj) k)"
    using Cons.IH [OF dist, of "fillDefault k' d' obj"] p by simp
  show ?case
  proof (cases "k = k'")
    case True
    with Cons.prems p have "map_of kds k = None"
      by (auto simp: map_of_eq_None_iff)
    with step True p show ?thesis
      by (simp add: getProp_fillDefault)
  next
    case False
    with step p show ?thesis
      by (simp add: getProp_fillDefault split: option.splits)
  qed
qed

lemma distinct_optionDefaults: "distinct (map fst optionDefaults)"
  by (simp add: optionDefaults_def)

lemma getProp_fillDefaults:
  "getProp (fillDefaults obj) k =
     (case map_of optionDefaults k of
        None \<Rightarrow> getProp obj k
      | Some d \<Rightarrow> if falsy (getProp obj k) then d else getProp obj k)"
  unfolding fillDefaults_def by (rule fold_fillDefault [OF distinct_optionDefaults])

lemma parseOptions_OptObj:
  "parseOptions s (OptObj a) = (s\<lparr>objects := (objects s)(a := fillDefaults (objects s a))\<rparr>, a)"
  by (simp add: parseOptions_def orEmptyObject_def)

lemma parseOptions_OptNull:
  "parseOptions s OptNull =
     (s\<lparr>objects := (objects s)(nextObject s := fillDefaults Map.empty),
        nextObject := Suc (nextObject s)\<rparr>, nextObject s)"
  by (simp add: parseOptions_def orEmptyObject_def newObject_def)

text \<open>
  C4. After \<^verbatim>\<open>parseOptions\<close>, each of the fifteen options with a default holds the
  default when its value in the supplied record was falsy (absent, \<^verbatim>\<open>false\<close>, \<^verbatim>\<open>0\<close>,
  the empty string, \<^verbatim>\<open>null\<close>) and its supplied value otherwise; every other property
  reads as before. For the empty record the result has language \<^verbatim>\<open>javascript\<close>, theme
  \<^verbatim>\<open>vs-dark\<close>, line numbers \<^verbatim>\<open>on\<close>, font size 20, read-only false and a minimap
  that is enabled; an explicit \<^verbatim>\<open>folding: false\<close> and \<^verbatim>\<open>fontSize: 0\<close> are replaced by
  \<^verbatim>\<open>true\<close> and 20, and a supplied theme is kept.
\<close>

theorem parseOptions_fills_falsy:
  "getProp (objects (fst (parseOptions s (OptObj a))) (snd (parseOptions s (OptObj a)))) k =
     (case map_of optionDefaults k of
        None \<Rightarrow> getProp (objects s a) k
      | Some d \<Rightarrow> if falsy (getProp (objects s a) k) then d else getProp (objects s a) k)
   \<and> map (getProp (objects (fst (parseOptions
            (s\<lparr>objects := (objects s)(a := Map.empty)\<rparr>) (OptObj a))) a))
        [''language'', ''theme'', ''lineNumbers'', ''fontSize'', ''readOnly'', ''minimap'']
      = [JStr ''javascript'', JStr ''vs-dark'', JStr ''on'', JNum 20, JBool False,
         JObj [(''enabled'', JBool True), (''showSlider'', JStr ''mouseover'')]]
   \<and> map (getProp (objects (fst (parseOptions
            (s\<lparr>objects := (objects s)(a :=
                 [''folding'' \<mapsto> JBool False, ''fontSize'' \<mapsto> JNum 0,
                  ''theme'' \<mapsto> JStr ''vs''])\<rparr>) (OptObj a))) a))
        [''folding'', ''fontSize'', ''theme'']
      = [JBool True, JNum 20, JStr ''vs'']"
  by (simp add: parseOptions_OptObj getProp_fillDefaults)
    (simp add: optionDefaults_def minimapDefault_def getProp_def)

text \<open>
  C9. Given an options object, \<^verbatim>\<open>parseOptions\<close> returns the reference it was given and
  allocates nothing; the world differs only in that object, which now holds the
  normalized record. So every default that was filled in is read through the caller's
  own reference, and no other object changes.
\<close>

theorem parseOptions_in_place:
  "parseOptions s (OptObj a) = (s\<lparr>objects := (objects s)(a := fillDefaults (objects s a))\<rparr>, a)
   \<and> nextObject (fst (parseOptions s (OptObj a))) = nextObject s
   \<and> (\<forall>r. r \<noteq> a \<longrightarrow> objects (fst (parseOptions s (OptObj a))) r = objects s r)
   \<and> (\<forall>k d. map_of optionDefaults k = Some d \<and> falsy (getProp (objects s a) k) \<longrightarrow>
         getProp (objects (fst (parseOptions s (OptObj a))) a) k = d)"
  by (simp add: parseOptions_OptObj getProp_fillDefaults)

theorem parseOptions_in_place_witness:
  "map_of optionDefaults ''fontSize'' = Some (JNum 20)
   \<and> falsy (getProp (objects (page (\<lambda>r. [])) 0) ''fontSize'')
   \<and> (1::nat) \<noteq> 0
   \<and> getProp (objects (fst (parseOptions (page (\<lambda>r. [])) (OptObj 0))) 0) ''fontSize'' = JNum 20
   \<and> objects (fst (parseOptions (page (\<lambda>r. [])) (OptObj 0))) 1 = objects (page (\<lambda>r. [])) 1"
proof -
  have h: "map_of optionDefaults ''fontSize'' = Some (JNum 20)
      \<and> falsy (getProp (objects (page (\<lambda>r. [])) 0) ''fontSize'')"
    by (simp add: optionDefaults_def page_def constructor_def getProp_def)
  from parseOptions_in_place [of "page (\<lambda>r. [])" 0] h show ?thesis
    by blast
qed

section \<open>The binding handler's init\<close>

text \<open>
  C5. \<^verbatim>\<open>init\<close> throws exactly when the element has no \<^verbatim>\<open>meOptions\<close> binding, and
  then nothing of the store has been called. With the binding present it returns what
  \<^verbatim>\<open>create\<close> returns for the element, the options object of the binding and the value
  accessor; a binding whose value is falsy is replaced by a fresh empty object first.
\<close>

theorem init_requires_meOptions:
  "(allBindings ''meOptions'' = None \<longrightarrow> init s element acc allBindings = Inl MissingOptions)
   \<and> (\<forall>a. allBindings ''meOptions'' = Some (OptObj a) \<longrightarrow>
         init s element acc allBindings = Inr (create s element (OptObj a) acc))
   \<and> (allBindings ''meOptions'' = Some OptNull \<longrightarrow>
         init s element acc allBindings =
           Inr (create (fst (newObject s)) element (OptObj (nextObject s)) acc))
   \<and> ((\<exists>err. init s element acc allBindings = Inl err) \<longleftrightarrow> allBindings ''meOptions'' = None)"
  by (auto simp: init_def orEmptyObject_def newObject_def
      split: option.splits options_arg.splits)

theorem init_requires_meOptions_witness:
  "Map.empty ''meOptions'' = None
   \<and> init (page (\<lambda>r. [])) 0 (Plain ''x'') Map.empty = Inl MissingOptions
   \<and> [''meOptions'' \<mapsto> OptObj 3] ''meOptions'' = Some (OptObj 3)
   \<and> init (page (\<lambda>r. [])) 0 (Plain ''x'') [''meOptions'' \<mapsto> OptObj 3]
       = Inr (create (page (\<lambda>r. [])) 0 (OptObj 3) (Plain ''x''))
   \<and> [''meOptions'' \<mapsto> OptNull] ''meOptions'' = Some OptNull
   \<and> init (page (\<lambda>r. [])) 0 (Plain ''x'') [''meOptions'' \<mapsto> OptNull]
       = Inr (create (fst (newObject (page (\<lambda>r. [])))) 0
               (OptObj (nextObject (page (\<lambda>r. [])))) (Plain ''x''))"
  using init_requires_meOptions [of Map.empty "page (\<lambda>r. [])" 0 "Plain ''x''"]
    init_requires_meOptions [of "[''meOptions'' \<mapsto> OptObj 3]" "page (\<lambda>r. [])" 0 "Plain ''x''"]
    init_requires_meOptions [of "[''meOptions'' \<mapsto> OptNull]" "page (\<lambda>r. [])" 0 "Plain ''x''"]
  by simp

section \<open>Property access on the store\<close>

lemma lookupProp_own: "map_of insts k = Some e \<Longrightarrow> lookupProp insts k = Handle e"
  by (simp add: lookupProp_def)

lemma hasOwnProperty_builtin:
  "map_of insts ''hasOwnProperty'' = None \<Longrightarrow>
   hasOwnProperty insts k = Inr (map_of insts k \<noteq> None)"
  by (simp add: hasOwnProperty_def lookupProp_def objectPrototypeKeys_def)

lemma hasOwnProperty_shadowed:
  "map_of insts ''hasOwnProperty'' = Some e \<Longrightarrow> hasOwnProperty insts k = Inl TypeError"
  by (simp add: hasOwnProperty_def lookupProp_def)


section \<open>create and the callback of require\<close>

lemma create_fields:
  "monacoEditorInstances (create s el opts acc) = monacoEditorInstances s"
  "nextEditor (create s el opts acc) = nextEditor s"
  "editors (create s el opts acc) = editors s"
  "objects (create s el opts acc) = objects s"
  "observables (create s el opts acc) = observables s"
  "disposeCallbacks (create s el opts acc) = disposeCallbacks s"
  "storedText (create s el opts acc) = storedText s"
  "validPosition (create s el opts acc) = validPosition s"
  by (simp_all add: create_def getNextId_def Let_def)

lemma create_id:
  "element_id (create s el opts acc) =
     (if element_id s el = []
      then (element_id s)(el := editorDomElementIdPrefix @ decimal (Suc (nextStoreEntryId s)))
      else element_id s)"
  "nextStoreEntryId (create s el opts acc) =
     (if element_id s el = [] then Suc (nextStoreEntryId s) else nextStoreEntryId s)"
  by (simp_all add: create_def getNextId_def Let_def)

lemma create_pending:
  "pendingLoads (create s el opts acc) =
     pendingLoads s @
       [\<lparr>p_element = el, p_options = opts, p_accessor = acc,
         p_start = unwrapObservable s acc\<rparr>]"
  by (simp add: create_def getNextId_def Let_def unwrapObservable_def split: ko_prop.splits)

lemma requireCallback_fields:
  "monacoEditorInstances (requireCallback s p) =
     AList.update (element_id s (p_element p)) (nextEditor s) (monacoEditorInstances s)"
  "nextEditor (requireCallback s p) = Suc (nextEditor s)"
  "element_id (requireCallback s p) = element_id s"
  "nextStoreEntryId (requireCallback s p) = nextStoreEntryId s"
  "pendingLoads (requireCallback s p) = pendingLoads s"
  "disposeCallbacks (requireCallback s p) = disposeCallbacks s @ [p_element p]"
  "observables (requireCallback s p) = observables s"
  "storedText (requireCallback s p) = storedText s"
  "validPosition (requireCallback s p) = validPosition s"
  by (cases "p_options p";
      simp add: requireCallback_def parseOptions_OptObj parseOptions_OptNull Let_def)+

lemma requireCallback_editors:
  "e \<noteq> nextEditor s \<Longrightarrow> editors (requireCallback s p) e = editors s e"
  "e = nextEditor s \<Longrightarrow> ed_value (editors (requireCallback s p) e) = storedText s (p_start p)"
  "e = nextEditor s \<Longrightarrow> ed_disposed (editors (requireCallback s p) e) = False"
  "e = nextEditor s \<Longrightarrow> ed_container (editors (requireCallback s p) e) = p_element p"
  "e = nextEditor s \<Longrightarrow> ed_setValueCalls (editors (requireCallback s p) e) = 0"
  "e = nextEditor s \<Longrightarrow>
     ed_listeners (editors (requireCallback s p) e) = [(p_element p, p_accessor p)]"
  "e = nextEditor s \<Longrightarrow>
     ed_position (editors (requireCallback s p) e) = \<lparr>lineNumber = 1, column = 1\<rparr>"
  by (cases "p_options p";
      simp add: requireCallback_def parseOptions_OptObj parseOptions_OptNull Let_def)+

lemma loadDone_create:
  "pendingLoads s = [] \<Longrightarrow>
   loadDone (create s el opts acc) =
     requireCallback ((create s el opts acc)\<lparr>pendingLoads := []\<rparr>)
       \<lparr>p_element = el, p_options = opts, p_accessor = acc, p_start = unwrapObservable s acc\<rparr>"
  by (simp add: loadDone_def create_pending)

text \<open>Only \<^verbatim>\<open>create\<close> touches the counter and the ids of the elements.\<close>

lemma loadDone_keeps_ids:
  "nextStoreEntryId (loadDone s) = nextStoreEntryId s"
  "element_id (loadDone s) = element_id s"
  by (simp_all add: loadDone_def requireCallback_fields split: list.splits)

lemma disposeEditor_keeps_ids:
  "disposeEditor s k = Inr s' \<Longrightarrow>
   nextStoreEntryId s' = nextStoreEntryId s \<and> element_id s' = element_id s"
  by (auto simp: disposeEditor_def dispose_def split: lookup.splits)

section \<open>The example pages\<close>

lemma decimal_small: "decimal (Suc 0) = ''1''" "decimal (Suc (Suc 0)) = ''2''"
  by code_simp+

lemma page_fields:
  "nextStoreEntryId (page ids) = 0"
  "monacoEditorInstances (page ids) = []"
  "element_id (page ids) = ids"
  "nextEditor (page ids) = 0"
  "nextObject (page ids) = 0"
  "pendingLoads (page ids) = []"
  "storedText (page ids) = crlfToLf"
  "validPosition (page ids) = fromFirst"
  "editors (page ids) = (\<lambda>r. noEditor)"
  "objects (page ids) = (\<lambda>r. Map.empty)"
  by (simp_all add: page_def constructor_def)

lemma editorOn_fields:
  "k \<noteq> [] \<Longrightarrow> monacoEditorInstances (editorOn k) = [(k, 0)]"
  "monacoEditorInstances (editorOn []) = [(''knockout-monaco-1'', 0)]"
  "k \<noteq> [] \<Longrightarrow> element_id (editorOn k) = (\<lambda>r. k)"
  "nextEditor (editorOn k) = Suc 0"
  "pendingLoads (editorOn k) = []"
  "ed_value (editors (editorOn k) 0) = ''// start''"
  "ed_disposed (editors (editorOn k) 0) = False"
  "ed_setValueCalls (editors (editorOn k) 0) = 0"
  "ed_listeners (editors (editorOn k) 0) = [(0, Plain ''// start'')]"
  "storedText (editorOn k) = crlfToLf"
  "validPosition (editorOn k) = fromFirst"
  by (simp_all add: editorOn_def loadDone_create page_fields requireCallback_fields
      requireCallback_editors create_fields create_id unwrapObservable_def
      editorDomElementIdPrefix_def decimal_small)

section \<open>Generated ids\<close>

lemma undecimal_decimal: "undecimal (decimal n) = n"
proof (induction n rule: decimal.induct)
  case (1 n)
  show ?case
  proof (cases "n < 10")
    case True
    then show ?thesis by (simp add: decimal.simps [of n] undecimal_def digit_def)
  next
    case False
    with 1 have ih: "undecimal (decimal (n div 10)) = n div 10" by simp
    have "undecimal (decimal n) = 10 * undecimal (decimal (n div 10)) + n mod 10"
      using False by (simp add: decimal.simps [of n] undecimal_def digit_def)
    with ih show ?thesis by simp
  qed
qed

lemma decimal_inj: "decimal m = decimal n \<Longrightarrow> m = n"
  by (metis undecimal_decimal)

lemma generated_id_inj: "inj (\<lambda>n. editorDomElementIdPrefix @ decimal n)"
  by (rule injI) (simp add: decimal_inj)

text \<open>
  What a sequence of \<^verbatim>\<open>create\<close> calls on distinct elements does to the counter and to
  the ids: the elements without an id get the next counter values, in the order of the
  calls; every other element keeps its id.
\<close>

lemma createAll_effect:
  "distinct (map fst calls) \<Longrightarrow>
   nextStoreEntryId (createAll s calls) =
     nextStoreEntryId s + length (filter (\<lambda>el. element_id s el = []) (map fst calls))
   \<and> (\<forall>el. el \<notin> set (filter (\<lambda>el. element_id s el = []) (map fst calls)) \<longrightarrow>
         element_id (createAll s calls) el = element_id s el)
   \<and> map (element_id (createAll s calls)) (filter (\<lambda>el. element_id s el = []) (map fst calls)) =
       map (\<lambda>n. editorDomElementIdPrefix @ decimal n)
         [Suc (nextStoreEntryId s) ..<
          Suc (nextStoreEntryId s + length (filter (\<lambda>el. element_id s el = []) (map fst calls)))]"
proof (induction calls arbitrary: s)
  case Nil
  then show ?case by simp
next
  case (Cons c calls)
  obtain el opts acc where c: "c = (el, opts, acc)" by (cases c)
  let ?s1 = "create s el opts acc"
  let ?fresh = "filter (\<lambda>x. element_id s x = []) (map fst calls)"
  from Cons.prems c have notin: "el \<notin> set (map fst calls)" and dist: "distinct (map fst calls)"
    by auto
  note ih = Cons.IH [OF dist, of ?s1]
  show ?case
  proof (cases "element_id s el = []")
    case False
    then have "element_id ?s1 = element_id s" "nextStoreEntryId ?s1 = nextStoreEntryId s"
      by (simp_all add: create_id)
    with ih False c show ?thesis by simp
  next
    case True
    then have id1: "element_id ?s1 =
        (element_id s)(el := editorDomElementIdPrefix @ decimal (Suc (nextStoreEntryId s)))"
      and n1: "nextStoreEntryId ?s1 = Suc (nextStoreEntryId s)"
      by (simp_all add: create_id)
    have same: "filter (\<lambda>x. element_id ?s1 x = []) (map fst calls) = ?fresh"
      using notin by (intro filter_cong) (auto simp: id1)
    have el_notin: "el \<notin> set ?fresh" using notin by auto
    from ih have a: "nextStoreEntryId (createAll ?s1 calls) =
          Suc (nextStoreEntryId s) + length ?fresh"
      and b: "\<And>x. x \<notin> set ?fresh \<Longrightarrow> element_id (createAll ?s1 calls) x = element_id ?s1 x"
      and d: "map (element_id (createAll ?s1 calls)) ?fresh =
         map (\<lambda>n. editorDomElementIdPrefix @ decimal n)
           [Suc (Suc (nextStoreEntryId s)) ..< Suc (Suc (nextStoreEntryId s) + length ?fresh)]"
      by (simp_all add: same n1)
    have el_id: "element_id (createAll ?s1 calls) el =
        editorDomElementIdPrefix @ decimal (Suc (nextStoreEntryId s))"
      using b [OF el_notin] by (simp add: id1)
    have others: "\<And>x. x \<noteq> el \<Longrightarrow> x \<notin> set ?fresh \<Longrightarrow>
        element_id (createAll ?s1 calls) x = element_id s x"
      using b by (simp add: id1)
    have fr: "filter (\<lambda>x. element_id s x = []) (map fst (c # calls)) = el # ?fresh"
      using True c by simp
    have upt: "[Suc (nextStoreEntryId s) ..< Suc (nextStoreEntryId s + length (el # ?fresh))] =
        Suc (nextStoreEntryId s) #
        [Suc (Suc (nextStoreEntryId s)) ..< Suc (Suc (nextStoreEntryId s) + length ?fresh)]"
      by (simp add: upt_conv_Cons del: upt_Suc)
    have cr: "createAll s (c # calls) = createAll ?s1 calls"
      using c by simp
    have "nextStoreEntryId (createAll ?s1 calls) = nextStoreEntryId s + length (el # ?fresh)"
      using a by simp
    moreover have "\<forall>x. x \<notin> set (el # ?fresh) \<longrightarrow>
        element_id (createAll ?s1 calls) x = element_id s x"
      using others by simp
    moreover have "map (element_id (createAll ?s1 calls)) (el # ?fresh) =
        map (\<lambda>n. editorDomElementIdPrefix @ decimal n)
          [Suc (nextStoreEntryId s) ..< Suc (nextStoreEntryId s + length (el # ?fresh))]"
      unfolding upt using el_id d by simp
    ultimately show ?thesis
      unfolding fr cr by blast
  qed
qed

text \<open>
  C3. After a sequence of \<^verbatim>\<open>create\<close> calls on distinct elements, started with the
  counter at \<open>n\<close>: every element that had an id keeps it; the elements that had none,
  in the order of the calls, hold the prefix \<^verbatim>\<open>knockout-monaco-\<close> followed by the
  decimal numerals of \<open>n + 1\<close>, \<open>n + 2\<close>, ...; the counter has grown by their number;
  the generated ids are pairwise different, and different from every id generated
  before (from a counter value up to \<open>n\<close>).
\<close>

theorem createAll_ids_unique:
  assumes "distinct (map fst calls)"
  shows "(\<forall>el \<in> set (map fst calls). element_id s el \<noteq> [] \<longrightarrow>
            element_id (createAll s calls) el = element_id s el)
    \<and> map (element_id (createAll s calls)) (filter (\<lambda>el. element_id s el = []) (map fst calls)) =
        map (\<lambda>n. editorDomElementIdPrefix @ decimal n)
          [Suc (nextStoreEntryId s) ..<
           Suc (nextStoreEntryId s + length (filter (\<lambda>el. element_id s el = []) (map fst calls)))]
    \<and> nextStoreEntryId (createAll s calls) =
        nextStoreEntryId s + length (filter (\<lambda>el. element_id s el = []) (map fst calls))
    \<and> distinct (map (element_id (createAll s calls))
          (filter (\<lambda>el. element_id s el = []) (map fst calls)))
    \<and> (\<forall>n \<le> nextStoreEntryId s. editorDomElementIdPrefix @ decimal n \<notin>
          set (map (element_id (createAll s calls))
            (filter (\<lambda>el. element_id s el = []) (map fst calls))))"
proof -
  let ?fresh = "filter (\<lambda>el. element_id s el = []) (map fst calls)"
  let ?gen = "\<lambda>n. editorDomElementIdPrefix @ decimal n"
  note eff = createAll_effect [OF assms, of s]
  from eff have ids: "map (element_id (createAll s calls)) ?fresh =
      map ?gen [Suc (nextStoreEntryId s) ..< Suc (nextStoreEntryId s + length ?fresh)]"
    by blast
  have kept: "\<forall>el \<in> set (map fst calls). element_id s el \<noteq> [] \<longrightarrow>
      element_id (createAll s calls) el = element_id s el"
    using eff by simp
  have dist: "distinct (map (element_id (createAll s calls)) ?fresh)"
    unfolding ids using generated_id_inj by (simp add: distinct_map inj_on_def inj_def)
  have old: "\<forall>n \<le> nextStoreEntryId s.
      ?gen n \<notin> set (map (element_id (createAll s calls)) ?fresh)"
    unfolding ids by (auto dest!: decimal_inj)
  from eff kept ids dist old show ?thesis by blast
qed

theorem createAll_ids_unique_witness:
  "distinct (map fst
      [(0, OptNull, Plain ''a''), (1, OptNull, Plain ''b''), (2::nat, OptNull, Plain ''c'')])
   \<and> map (element_id (createAll (page (\<lambda>r. if r = 1 then ''main'' else []))
        [(0, OptNull, Plain ''a''), (1, OptNull, Plain ''b''), (2, OptNull, Plain ''c'')]))
        [0, 1, 2]
      = [''knockout-monaco-1'', ''main'', ''knockout-monaco-2'']"
  using createAll_ids_unique
    [of "[(0, OptNull, Plain ''a''), (1, OptNull, Plain ''b''), (2, OptNull, Plain ''c'')]"
      "page (\<lambda>r. if r = 1 then ''main'' else [])"]
  by (simp add: page_fields create_id editorDomElementIdPrefix_def decimal_small)

section \<open>An id that is already registered\<close>

text \<open>
  C10. Let the element carry a DOM id under which the store already holds an editor.
  \<^verbatim>\<open>create\<close> changes neither the store nor the ids, and when its callback has run the
  store holds the new editor under that id: a handle different from the previous one,
  in the place of the previous entry, with the keys and all other entries as before.
  The previous editor is as it was; \<^verbatim>\<open>dispose\<close> has not been called on it.
\<close>

theorem create_overwrites_registered_id:
  assumes "element_id s el = k" and "k \<noteq> []"
    and "map_of (monacoEditorInstances s) k = Some old" and "old < nextEditor s"
    and "pendingLoads s = []"
  shows "monacoEditorInstances (create s el opts acc) = monacoEditorInstances s
    \<and> element_id (create s el opts acc) = element_id s
    \<and> map_of (monacoEditorInstances (loadDone (create s el opts acc))) k = Some (nextEditor s)
    \<and> nextEditor s \<noteq> old
    \<and> map fst (monacoEditorInstances (loadDone (create s el opts acc))) =
        map fst (monacoEditorInstances s)
    \<and> (\<forall>k'. k' \<noteq> k \<longrightarrow>
          map_of (monacoEditorInstances (loadDone (create s el opts acc))) k' =
          map_of (monacoEditorInstances s) k')
    \<and> editors (loadDone (create s el opts acc)) old = editors s old
    \<and> ed_disposed (editors (loadDone (create s el opts acc)) old) = ed_disposed (editors s old)"
proof -
  let ?s' = "loadDone (create s el opts acc)"
  have id: "element_id (create s el opts acc) = element_id s"
    using assms(1,2) by (simp add: create_id)
  have insts: "monacoEditorInstances ?s' =
      AList.update k (nextEditor s) (monacoEditorInstances s)"
    using assms(1,5) id by (simp add: loadDone_create requireCallback_fields create_fields)
  have keys: "map fst (AList.update k (nextEditor s) (monacoEditorInstances s)) =
      map fst (monacoEditorInstances s)"
    using assms(3) by (simp add: update_keys map_of_eq_None_iff [symmetric])
  have eds: "editors ?s' old = editors s old"
    using assms(4,5) by (simp add: loadDone_create requireCallback_editors create_fields)
  show ?thesis
    using assms(4) id insts keys eds by (simp add: create_fields update_conv')
qed

theorem create_overwrites_registered_id_witness:
  "element_id (editorOn ''a'') 1 = ''a'' \<and> ''a'' \<noteq> []
   \<and> map_of (monacoEditorInstances (editorOn ''a'')) ''a'' = Some 0
   \<and> 0 < nextEditor (editorOn ''a'') \<and> pendingLoads (editorOn ''a'') = []
   \<and> map_of (monacoEditorInstances (loadDone (create (editorOn ''a'') 1 OptNull (Plain ''b''))))
        ''a'' = Some 1
   \<and> \<not> ed_disposed (editors (loadDone (create (editorOn ''a'') 1 OptNull (Plain ''b''))) 0)"
proof -
  have h: "element_id (editorOn ''a'') 1 = ''a''" "''a'' \<noteq> []"
    "map_of (monacoEditorInstances (editorOn ''a'')) ''a'' = Some 0"
    "0 < nextEditor (editorOn ''a'')" "pendingLoads (editorOn ''a'') = []"
    by (simp_all add: editorOn_fields)
  from create_overwrites_registered_id [OF h, of OptNull "Plain ''b''"] h show ?thesis
    by (simp add: editorOn_fields)
qed

section \<open>get\<close>

text \<open>
  \<^verbatim>\<open>get\<close> throws for \<^verbatim>\<open>null\<close> and for the empty string and for nothing else. It
  returns the stored handle for a registered id, and \<^verbatim>\<open>undefined\<close> for an id that is
  neither registered nor the name of a member of \<^verbatim>\<open>Object.prototype\<close>; for such a name
  it returns that member.
\<close>

lemma get_cases:
  "get s IdNull = Inl InvalidArgument"
  "get s (IdStr []) = Inl InvalidArgument"
  "ident \<noteq> IdNull \<Longrightarrow> ident \<noteq> IdStr [] \<Longrightarrow> \<exists>r. get s ident = Inr r"
  "map_of (monacoEditorInstances s) k = Some e \<Longrightarrow> k \<noteq> [] \<Longrightarrow> get s (IdStr k) = Inr (Handle e)"
  "map_of (monacoEditorInstances s) k = None \<Longrightarrow> k \<noteq> [] \<Longrightarrow> k \<notin> set objectPrototypeKeys \<Longrightarrow>
     get s (IdStr k) = Inr Undefined"
  "map_of (monacoEditorInstances s) k = None \<Longrightarrow> k \<in> set objectPrototypeKeys \<Longrightarrow>
     get s (IdStr k) = Inr (Inherited k)"
  by (auto simp: get_def lookupProp_def objectPrototypeKeys_def)

text \<open>
  C2, at the id \<^verbatim>\<open>constructor\<close> on a store that holds no editor: no entry matches,
  and \<^verbatim>\<open>get\<close> returns the function \<^verbatim>\<open>Object.prototype.constructor\<close>, not an absent
  result.
\<close>

theorem get_inherited_member:
  "monacoEditorInstances (page (\<lambda>r. [])) = []
   \<and> get (page (\<lambda>r. [])) (IdStr ''constructor'') = Inr (Inherited ''constructor'')"
  by (simp add: get_def lookupProp_def page_fields objectPrototypeKeys_def)

section \<open>hasEditors\<close>

lemma hasEditors_loop_builtin:
  "map_of insts ''hasOwnProperty'' = None \<Longrightarrow> set ks \<subseteq> fst ` set insts \<Longrightarrow>
   hasEditors_loop insts ks h = Inr (h \<or> ks \<noteq> [])"
proof (induction ks arbitrary: h)
  case Nil
  then show ?case by simp
next
  case (Cons k ks)
  from Cons.prems have "map_of insts k \<noteq> None"
    by (simp add: map_of_eq_None_iff)
  with Cons show ?case
    by (simp add: hasOwnProperty_builtin)
qed

text \<open>
  While no editor is stored under the key \<^verbatim>\<open>hasOwnProperty\<close>, \<^verbatim>\<open>hasEditors\<close> tells
  whether the store has an entry; once one is, it throws.
\<close>

lemma hasEditors_builtin:
  "map_of (monacoEditorInstances s) ''hasOwnProperty'' = None \<Longrightarrow>
   hasEditors s = Inr (monacoEditorInstances s \<noteq> [])"
  by (simp add: hasEditors_def forInKeys_def hasEditors_loop_builtin)

lemma hasEditors_shadowed:
  "map_of (monacoEditorInstances s) ''hasOwnProperty'' = Some e \<Longrightarrow>
   hasEditors s = Inl TypeError"
  by (cases "monacoEditorInstances s")
    (simp_all add: hasEditors_def forInKeys_def hasOwnProperty_shadowed)

text \<open>
  C7, on the page where an editor was created on an element whose DOM id is
  \<^verbatim>\<open>hasOwnProperty\<close>: the store has one entry, and \<^verbatim>\<open>hasEditors\<close> throws a TypeError
  instead of returning \<^verbatim>\<open>true\<close>.
\<close>

theorem hasEditors_throws_when_shadowed:
  "monacoEditorInstances (editorOn ''hasOwnProperty'') = [(''hasOwnProperty'', 0)]
   \<and> hasEditors (editorOn ''hasOwnProperty'') = Inl TypeError"
  by (simp add: editorOn_fields hasEditors_def forInKeys_def hasOwnProperty_def lookupProp_def)

section \<open>setValue and setPosition\<close>

text \<open>The listeners write observables and nothing else.\<close>

lemma runListener_observables: "\<exists>obs. runListener s l = s\<lparr>observables := obs\<rparr>"
proof (cases "contentListener s (fst l) (snd l)")
  case (Inl err)
  then have "runListener s l = s\<lparr>observables := observables s\<rparr>"
    by (simp add: runListener_def)
  then show ?thesis by blast
next
  case (Inr s')
  then have "s' = s \<or> (\<exists>r v. s' = s\<lparr>observables := (observables s)(r := v)\<rparr>)"
    by (auto simp: contentListener_def split: ko_prop.splits sum.splits lookup.splits)
  then show ?thesis
  proof
    assume "s' = s"
    with Inr have "runListener s l = s\<lparr>observables := observables s\<rparr>"
      by (simp add: runListener_def)
    then show ?thesis by blast
  next
    assume "\<exists>r v. s' = s\<lparr>observables := (observables s)(r := v)\<rparr>"
    then obtain r v where "s' = s\<lparr>observables := (observables s)(r := v)\<rparr>" by blast
    with Inr have "runListener s l = s\<lparr>observables := (observables s)(r := v)\<rparr>"
      by (simp add: runListener_def)
    then show ?thesis by blast
  qed
qed

lemma fold_runListener: "\<exists>obs. fold (\<lambda>l w. runListener w l) ls s = s\<lparr>observables := obs\<rparr>"
proof (induction ls arbitrary: s)
  case Nil
  have "fold (\<lambda>l w. runListener w l) [] s = s\<lparr>observables := observables s\<rparr>" by simp
  then show ?case by blast
next
  case (Cons l ls)
  obtain obs1 where one: "runListener s l = s\<lparr>observables := obs1\<rparr>"
    using runListener_observables by blast
  obtain obs2 where rest: "fold (\<lambda>l w. runListener w l) ls (s\<lparr>observables := obs1\<rparr>) =
      s\<lparr>observables := obs1\<rparr>\<lparr>observables := obs2\<rparr>"
    using Cons.IH by blast
  from one rest have "fold (\<lambda>l w. runListener w l) (l # ls) s = s\<lparr>observables := obs2\<rparr>"
    by simp
  then show ?case by blast
qed

lemma setValue_observables:
  "\<exists>obs. setValue s e v =
     s\<lparr>editors := (editors s)(e := (editors s e)
          \<lparr>ed_value := storedText s v,
           ed_setValueCalls := Suc (ed_setValueCalls (editors s e))\<rparr>),
       observables := obs\<rparr>"
proof -
  let ?s1 = "s\<lparr>editors := (editors s)(e := (editors s e)
      \<lparr>ed_value := storedText s v, ed_setValueCalls := Suc (ed_setValueCalls (editors s e))\<rparr>)\<rparr>"
  obtain obs where "fold (\<lambda>l w. runListener w l) (ed_listeners (editors ?s1 e)) ?s1 =
      ?s1\<lparr>observables := obs\<rparr>"
    using fold_runListener by blast
  then have "setValue s e v = ?s1\<lparr>observables := obs\<rparr>"
    by (simp add: setValue_def fireDidChangeModelContent_def)
  then show ?thesis by blast
qed

lemma setValue_fields:
  "editors (setValue s e v) =
     (editors s)(e := (editors s e)
        \<lparr>ed_value := storedText s v,
         ed_setValueCalls := Suc (ed_setValueCalls (editors s e))\<rparr>)"
  "monacoEditorInstances (setValue s e v) = monacoEditorInstances s"
  "element_id (setValue s e v) = element_id s"
  "nextStoreEntryId (setValue s e v) = nextStoreEntryId s"
  "storedText (setValue s e v) = storedText s"
  "validPosition (setValue s e v) = validPosition s"
  using setValue_observables [of s e v] by auto

lemma setPosition_fields:
  "editors (setPosition s e p) =
     (editors s)(e := (editors s e)\<lparr>ed_position := validPosition s (ed_value (editors s e)) p\<rparr>)"
  "monacoEditorInstances (setPosition s e p) = monacoEditorInstances s"
  "element_id (setPosition s e p) = element_id s"
  "nextStoreEntryId (setPosition s e p) = nextStoreEntryId s"
  "storedText (setPosition s e p) = storedText s"
  "validPosition (setPosition s e p) = validPosition s"
  by (simp_all add: setPosition_def)

section \<open>updateEditor\<close>


text \<open>
  While no editor is stored under the key \<^verbatim>\<open>hasOwnProperty\<close>: \<^verbatim>\<open>updateEditor\<close> changes
  nothing for an id that is \<^verbatim>\<open>null\<close>, empty or not registered; for a registered id it
  calls \<^verbatim>\<open>setValue\<close> and \<^verbatim>\<open>setPosition\<close> with (0, 0) when the text differs, and
  changes nothing when it does not.
\<close>

lemma updateEditor_skips:
  "updateEditor s IdNull v = Inr s"
  "updateEditor s (IdStr []) v = Inr s"
  by (simp_all add: updateEditor_def)

lemma updateEditor_unknown:
  "map_of (monacoEditorInstances s) ''hasOwnProperty'' = None \<Longrightarrow>
   map_of (monacoEditorInstances s) (propertyKey ident) = None \<Longrightarrow>
   updateEditor s ident v = Inr s"
  by (simp add: updateEditor_def hasOwnProperty_builtin)

lemma updateEditor_registered:
  "map_of (monacoEditorInstances s) ''hasOwnProperty'' = None \<Longrightarrow> k \<noteq> [] \<Longrightarrow>
   map_of (monacoEditorInstances s) k = Some e \<Longrightarrow>
   updateEditor s (IdStr k) v =
     Inr (if getValue s e \<noteq> v
          then setPosition (setValue s e v) e \<lparr>lineNumber = 0, column = 0\<rparr>
          else s)"
  by (simp add: updateEditor_def hasOwnProperty_builtin lookupProp_own)

lemma updateEditor_shadowed:
  "map_of (monacoEditorInstances s) ''hasOwnProperty'' = Some e \<Longrightarrow>
   ident \<noteq> IdNull \<Longrightarrow> ident \<noteq> IdStr [] \<Longrightarrow> updateEditor s ident v = Inl TypeError"
  by (simp add: updateEditor_def hasOwnProperty_shadowed)

text \<open>
  C1, on the page where an editor was created on an element whose DOM id is
  \<^verbatim>\<open>hasOwnProperty\<close>: \<^verbatim>\<open>updateEditor\<close> throws a TypeError for the id \<^verbatim>\<open>other\<close>, which
  is not a key of the store, and for the registered id, whose text it does not set.
\<close>

theorem updateEditor_throws_when_shadowed:
  "map_of (monacoEditorInstances (editorOn ''hasOwnProperty'')) ''other'' = None
   \<and> updateEditor (editorOn ''hasOwnProperty'') (IdStr ''other'') ''hello'' = Inl TypeError
   \<and> map_of (monacoEditorInstances (editorOn ''hasOwnProperty'')) ''hasOwnProperty'' = Some 0
   \<and> updateEditor (editorOn ''hasOwnProperty'') (IdStr ''hasOwnProperty'') ''hello''
       = Inl TypeError"
  by (simp add: editorOn_fields updateEditor_def hasOwnProperty_def lookupProp_def)



text \<open>
  On the example page the widget puts the position (0, 0) that \<^verbatim>\<open>updateEditor\<close> asks
  for at line 1, column 1.
\<close>

lemma updateEditor_position_example:
  "ed_position (editors
     (setPosition (setValue (editorOn []) 0 ''hello'') 0 \<lparr>lineNumber = 0, column = 0\<rparr>) 0)
   = \<lparr>lineNumber = 1, column = 1\<rparr>"
  by (simp add: setPosition_fields setValue_fields editorOn_fields fromFirst_def)




section \<open>Disposal\<close>

lemma disposeEditor_registered:
  "map_of (monacoEditorInstances s) k = Some e \<Longrightarrow>
   disposeEditor s k =
     Inr (s\<lparr>editors := (editors s)(e := (editors s e)\<lparr>ed_disposed := True\<rparr>),
           monacoEditorInstances := AList.delete k (monacoEditorInstances s)\<rparr>)"
  by (simp add: disposeEditor_def lookupProp_own dispose_def)

lemma disposeEditor_unregistered:
  "map_of (monacoEditorInstances s) k = None \<Longrightarrow> disposeEditor s k = Inl TypeError"
  by (simp add: disposeEditor_def lookupProp_def)

text \<open>
  The dispose callback of an element under whose id an editor is stored: the editor is
  disposed, its entry is gone, the other entries and editors are as before.
  \<^verbatim>\<open>get\<close> of the id then returns \<^verbatim>\<open>undefined\<close>, unless the id is the name of a member
  of \<^verbatim>\<open>Object.prototype\<close>.
\<close>

lemma disposeCallback_removes_entry:
  assumes "element_id s el = k" and "map_of (monacoEditorInstances s) k = Some e"
    and "disposeCallback s el = Inr s'"
  shows "ed_disposed (editors s' e)"
    and "map_of (monacoEditorInstances s') k = None"
    and "k' \<noteq> k \<Longrightarrow> map_of (monacoEditorInstances s') k' = map_of (monacoEditorInstances s) k'"
    and "e' \<noteq> e \<Longrightarrow> editors s' e' = editors s e'"
    and "k \<noteq> [] \<Longrightarrow> k \<notin> set objectPrototypeKeys \<Longrightarrow> get s' (IdStr k) = Inr Undefined"
    and "k \<in> set objectPrototypeKeys \<Longrightarrow> get s' (IdStr k) = Inr (Inherited k)"
  using assms
  by (auto simp: disposeCallback_def disposeEditor_registered delete_conv' get_def
      lookupProp_def objectPrototypeKeys_def)

text \<open>The scenario of the specification, on the generated id \<^verbatim>\<open>knockout-monaco-1\<close>.\<close>

lemma dispose_scenario:
  "disposeCallback (editorOn []) 0 =
     Inr ((dispose (editorOn []) 0)\<lparr>monacoEditorInstances := []\<rparr>)"
  "get ((dispose (editorOn []) 0)\<lparr>monacoEditorInstances := []\<rparr>) (IdStr ''knockout-monaco-1'')
     = Inr Undefined"
  "hasEditors (editorOn []) = Inr True"
  "hasEditors ((dispose (editorOn []) 0)\<lparr>monacoEditorInstances := []\<rparr>) = Inr False"
  by (simp_all add: disposeCallback_def disposeEditor_def lookupProp_def get_def dispose_def
      hasEditors_def forInKeys_def hasOwnProperty_def objectPrototypeKeys_def
      editorOn_def loadDone_create page_fields requireCallback_fields create_fields create_id
      editorDomElementIdPrefix_def decimal_small)

text \<open>
  C8, on the page where an editor was created on an element whose DOM id is
  \<^verbatim>\<open>toString\<close>: the dispose callback disposes the editor and removes the entry, and
  \<^verbatim>\<open>get\<close> of that id then returns the function \<^verbatim>\<open>Object.prototype.toString\<close>, not an
  absent result.
\<close>

theorem get_after_dispose_inherited:
  "map_of (monacoEditorInstances (editorOn ''toString'')) ''toString'' = Some 0
   \<and> disposeCallback (editorOn ''toString'') 0 =
       Inr ((dispose (editorOn ''toString'') 0)\<lparr>monacoEditorInstances := []\<rparr>)
   \<and> get ((dispose (editorOn ''toString'') 0)\<lparr>monacoEditorInstances := []\<rparr>)
         (IdStr ''toString'')
       = Inr (Inherited ''toString'')"
  by (simp add: editorOn_fields disposeCallback_def disposeEditor_def lookupProp_def get_def
      dispose_def objectPrototypeKeys_def)

end
